theory Spec2Isabelle
  imports Main "HOL-Library.AList" "HOL-Library.Sublist"
begin

section \<open>Responses, requests and fetch outcomes\<close>

text \<open>
  A response as the code reads it: the numeric status, the status text, the headers and
  the body. \<open>ok\<close> is the fetch API's \<open>response.ok\<close>: the status lies in 200..299.
\<close>

record response =
  status :: nat
  statusText :: string
  headers :: "(string \<times> string) list"
  body :: string

definition ok :: "response \<Rightarrow> bool" where
  "ok r = (200 \<le> status r \<and> status r \<le> 299)"

text \<open>
  What a rejected \<open>fetch\<close> throws: an \<open>AbortError\<close> when the 30 s timer aborted the
  attempt, a \<open>TypeError\<close> on a network failure; \<open>Error\<close> is a plain
  \<open>new Error(message)\<close>.
\<close>

datatype js_error = AbortError | TypeError string | Error string

datatype fetch_result = Resolved response | Rejected js_error

record request =
  url :: string
  req_method :: string
  destination :: string

section \<open>The host's cache storage\<close>

text \<open>
  Modelled from the spec: the host-provided response cache (the browser's
  \<open>caches\<close> object), which is no code of the repository. Spec section 3: a store maps
  the request identity (URL + method, effectively the URL, since only GET is cached) to
  the most recently stored response, with at most one response per key. Spec section 6:
  \<open>put\<close> overwrites any entry of that key; \<open>open\<close> creates the store on first use;
  \<open>keys\<close> lists the store names; \<open>delete\<close> removes a whole store. Only GET is cached:
  the host refuses the \<open>put\<close> of a request with another method (the promise it returns
  is rejected, and the worker awaits no put, so nothing else follows from it), and
  \<open>match\<close> finds no entry for such a request. Stores and storage are association
  lists, kept in order of creation.
\<close>

type_synonym cache = "(string \<times> response) list"

type_synonym cache_storage = "(string \<times> cache) list"

text \<open>\<open>new Request(u)\<close>, which the host builds when it is given a string: a GET request.\<close>

definition new_Request :: "string \<Rightarrow> request" where
  "new_Request u = \<lparr>url = u, req_method = ''GET'', destination = []\<rparr>"

definition cache_match :: "request \<Rightarrow> cache \<Rightarrow> response option" where
  "cache_match request c =
     (if req_method request = ''GET'' then map_of c (url request) else None)"

definition cache_put :: "request \<Rightarrow> response \<Rightarrow> cache \<Rightarrow> cache" where
  "cache_put request r c =
     (if req_method request = ''GET'' then AList.update (url request) r c else c)"

definition caches_keys :: "cache_storage \<Rightarrow> string list" where
  "caches_keys cs = map fst cs"

definition caches_open :: "string \<Rightarrow> cache_storage \<Rightarrow> cache_storage" where
  "caches_open name cs = (if name \<in> set (caches_keys cs) then cs else cs @ [(name, [])])"

definition caches_delete :: "string \<Rightarrow> cache_storage \<Rightarrow> cache_storage" where
  "caches_delete name cs = filter (\<lambda>(n, c). n \<noteq> name) cs"

text \<open>The store behind the handle that \<open>caches.open(name)\<close> returned, and a put through it.\<close>

definition cache_of :: "string \<Rightarrow> cache_storage \<Rightarrow> cache" where
  "cache_of name cs = (case map_of cs name of Some c \<Rightarrow> c | None \<Rightarrow> [])"

definition storage_put :: "string \<Rightarrow> request \<Rightarrow> response \<Rightarrow> cache_storage \<Rightarrow> cache_storage" where
  "storage_put name request r cs =
     map (\<lambda>(n, c). if n = name then (n, cache_put request r c) else (n, c)) cs"

text \<open>
  \<open>cache.addAll(urls)\<close>: every URL is fetched; if one fetch fails or one response is
  not ok the call rejects and stores nothing, otherwise every response is stored.
\<close>

fun fetch_all :: "(string \<Rightarrow> fetch_result) \<Rightarrow> string list \<Rightarrow> js_error + (string \<times> response) list" where
  "fetch_all net [] = Inr []"
| "fetch_all net (u # us) =
     (case net u of
        Rejected e \<Rightarrow> Inl e
      | Resolved r \<Rightarrow>
          if ok r then
            (case fetch_all net us of Inl e \<Rightarrow> Inl e | Inr rs \<Rightarrow> Inr ((u, r) # rs))
          else Inl (TypeError ''Request failed''))"

definition cache_addAll ::
  "string \<Rightarrow> string list \<Rightarrow> (string \<Rightarrow> fetch_result) \<Rightarrow> cache_storage \<Rightarrow> (js_error + unit) \<times> cache_storage" where
  "cache_addAll name urls net cs =
     (case fetch_all net urls of
        Inl e \<Rightarrow> (Inl e, cs)
      | Inr rs \<Rightarrow> (Inr (), foldl (\<lambda>cs' (u, r). storage_put name (new_Request u) r cs') cs rs))"

section \<open>The service worker (\<open>sw.js\<close>)\<close>

definition CACHE_VERSION :: string where
  "CACHE_VERSION = ''portfolio-v3.0.0''"

definition RUNTIME_CACHE :: string where
  "RUNTIME_CACHE = ''runtime-v3.0.0''"

definition IMAGE_CACHE :: string where
  "IMAGE_CACHE = ''images-v3.0.0''"

definition STATIC_ASSETS :: "string list" where
  "STATIC_ASSETS =
     [''/'',
      ''/index.html'',
      ''/style.css'',
      ''/script.js'',
      ''/manifest.json'',
      ''/offline.html'',
      ''/js/modules/animations-gsap.js'',
      ''/js/modules/skill-chart.js'',
      ''/js/modules/portfolio-api.js'',
      ''/js/modules/portfolio-ui.js'',
      ''/js/modules/portfolio-forms.js'',
      ''/js/modules/error-handler.js'']"

text \<open>\<open>s.includes(t)\<close>: \<open>t\<close> occurs in \<open>s\<close> as a contiguous substring.\<close>

definition includes_str :: "string \<Rightarrow> string \<Rightarrow> bool" where
  "includes_str s t = sublist t s"

text \<open>
  A string given to the cache (\<open>addAll(STATIC_ASSETS)\<close>, \<open>match('/offline.html')\<close>)
  is resolved against the worker's own location: the paths all start with a slash, so the
  key is the worker's origin followed by the path.
\<close>

definition resolve :: "string \<Rightarrow> string \<Rightarrow> string" where
  "resolve origin path = origin @ path"

subsection \<open>Install\<close>

text \<open>
  The promise handed to \<open>event.waitUntil\<close> is
  \<open>caches.open(...).then(addAll).then(skipWaiting).catch(log)\<close>. \<open>chain\<close> is the promise
  before the \<open>catch\<close>; the handler of the \<open>catch\<close> logs the error and returns, so the
  promise it yields is fulfilled.
\<close>

record install_result =
  waitUntil :: "js_error + unit"
  skipWaiting :: bool
  logged :: "js_error option"
  storage :: cache_storage

definition install_listener ::
  "string \<Rightarrow> (string \<Rightarrow> fetch_result) \<Rightarrow> cache_storage \<Rightarrow> install_result" where
  "install_listener origin net cs =
     (let cs1 = caches_open CACHE_VERSION cs;
          (chain, cs2) = cache_addAll CACHE_VERSION (map (resolve origin) STATIC_ASSETS) net cs1
      in case chain of
           Inr u \<Rightarrow> \<lparr>waitUntil = Inr u, skipWaiting = True, logged = None, storage = cs2\<rparr>
         | Inl error \<Rightarrow>
             \<lparr>waitUntil = Inr (), skipWaiting = False, logged = Some error, storage = cs2\<rparr>)"

text \<open>
  The host's rule for the install step: the worker becomes installed when the promise
  given to \<open>waitUntil\<close> is fulfilled, and is discarded (the previous worker staying in
  control) when it is rejected.
\<close>

definition install_completes :: "install_result \<Rightarrow> bool" where
  "install_completes res = (case waitUntil res of Inr u \<Rightarrow> True | Inl e \<Rightarrow> False)"

subsection \<open>Activate\<close>

definition currentCaches :: "string list" where
  "currentCaches = [CACHE_VERSION, RUNTIME_CACHE, IMAGE_CACHE]"

text \<open>
  Every store name that \<open>caches.keys()\<close> lists and \<open>currentCaches\<close> does not include is
  deleted; then \<open>clients.claim()\<close> is called (the second component).
\<close>

definition activate_listener :: "cache_storage \<Rightarrow> cache_storage \<times> bool" where
  "activate_listener cs =
     (foldl (\<lambda>cs' cacheName.
               if cacheName \<notin> set currentCaches then caches_delete cacheName cs' else cs')
        cs (caches_keys cs),
      True)"

subsection \<open>The two strategies\<close>

definition offline_response :: "string \<Rightarrow> response" where
  "offline_response text =
     \<lparr>status = 503, statusText = ''Service Unavailable'',
      headers = [(''Content-Type'', ''text/plain'')], body = text\<rparr>"

text \<open>
  \<open>net\<close> is the outcome of the one \<open>fetch(request)\<close> a strategy issues. The result is
  the response handed to the page and the cache storage once the puts the strategy issued
  (none of them awaited) have been carried out.
\<close>

definition cacheFirstStrategy ::
  "request \<Rightarrow> string \<Rightarrow> cache_storage \<Rightarrow> fetch_result \<Rightarrow> response \<times> cache_storage" where
  "cacheFirstStrategy request cacheName cs net =
     (let cs1 = caches_open cacheName cs in
      case cache_match request (cache_of cacheName cs1) of
        Some cachedResponse \<Rightarrow>
          (cachedResponse,
           case net of
             Resolved response \<Rightarrow>
               if status response = 200
               then storage_put cacheName request response cs1 else cs1
           | Rejected error \<Rightarrow> cs1)
      | None \<Rightarrow>
          (case net of
             Resolved response \<Rightarrow>
               (response,
                if status response = 200
                then storage_put cacheName request response cs1 else cs1)
           | Rejected error \<Rightarrow> (offline_response ''Offline - Content not available'', cs1)))"

definition networkFirstStrategy ::
  "string \<Rightarrow> request \<Rightarrow> cache_storage \<Rightarrow> fetch_result \<Rightarrow> response \<times> cache_storage" where
  "networkFirstStrategy origin request cs net =
     (let cs1 = caches_open RUNTIME_CACHE cs in
      case net of
        Resolved response \<Rightarrow>
          (response,
           if status response = 200
           then storage_put RUNTIME_CACHE request response cs1 else cs1)
      | Rejected error \<Rightarrow>
          (case cache_match request (cache_of RUNTIME_CACHE cs1) of
             Some cachedResponse \<Rightarrow> (cachedResponse, cs1)
           | None \<Rightarrow>
               (if destination request = ''document'' then
                  (case cache_match (new_Request (resolve origin ''/offline.html''))
                          (cache_of RUNTIME_CACHE cs1) of
                     Some offlinePage \<Rightarrow> (offlinePage, cs1)
                   | None \<Rightarrow> (offline_response ''Offline - No cached version available'', cs1))
                else (offline_response ''Offline - No cached version available'', cs1))))"

subsection \<open>The fetch listener\<close>

text \<open>
  \<open>url_origin\<close> is the host's \<open>new URL(u).origin\<close> and \<open>location_origin\<close> the worker's
  \<open>location.origin\<close>. \<open>None\<close>: the listener returns without \<open>respondWith\<close>, and the
  request is left to the browser.
\<close>

definition fetch_listener ::
  "(string \<Rightarrow> string) \<Rightarrow> string \<Rightarrow> request \<Rightarrow> cache_storage \<Rightarrow> fetch_result
     \<Rightarrow> (response \<times> cache_storage) option" where
  "fetch_listener url_origin location_origin request cs net =
     (if url_origin (url request) \<noteq> location_origin then None
      else if includes_str (url request) ''/api/''
        then Some (networkFirstStrategy location_origin request cs net)
      else if destination request = ''image''
        then Some (cacheFirstStrategy request IMAGE_CACHE cs net)
      else if list_ex (\<lambda>asset. includes_str (url request) asset) STATIC_ASSETS
        then Some (cacheFirstStrategy request CACHE_VERSION cs net)
      else Some (networkFirstStrategy location_origin request cs net))"

text \<open>
  The origin of the URLs used in the examples below, which all have the form
  \<open>scheme://authority/path\<close>: the text before the first slash that follows the
  authority.
\<close>

definition origin_of :: "string \<Rightarrow> string" where
  "origin_of u =
     takeWhile (\<lambda>c. c \<noteq> CHR ''/'') u @ ''//'' @
     takeWhile (\<lambda>c. c \<noteq> CHR ''/'') (drop 2 (dropWhile (\<lambda>c. c \<noteq> CHR ''/'') u))"

subsection \<open>Observing the storage\<close>

text \<open>
  The entry that the store \<open>name\<close> holds under the key \<open>u\<close> (what
  \<open>caches.open(name)\<close> followed by \<open>match(u)\<close> answers), and the invariant of the data
  model: a store holds at most one response per key.
\<close>

definition lookup :: "string \<Rightarrow> string \<Rightarrow> cache_storage \<Rightarrow> response option" where
  "lookup name u cs = map_of (cache_of name cs) u"

definition one_per_key :: "cache_storage \<Rightarrow> bool" where
  "one_per_key cs = list_all (\<lambda>(n, c). distinct (map fst c)) cs"

section \<open>The backoff retry helper (\<open>fetchWithBackoff\<close>)\<close>

text \<open>
  \<open>fetchWithBackoff(url, options, retries = 3, delay = 1000)\<close>. The network is the
  function \<open>net\<close>: \<open>net i\<close> is the outcome of the fetch issued in loop iteration \<open>i\<close>
  (each iteration issues exactly one). The result is what the helper returns
  (\<open>Inr\<close>) or throws (\<open>Inl\<close>), the delays it slept, in order, and the number of
  fetches it issued. \<open>delay\<close> is a JavaScript number; doubling it is exact, so it is a
  \<open>nat\<close> here.
\<close>

type_synonym backoff_result = "(js_error + response) \<times> nat list \<times> nat"

function backoff_loop ::
  "(nat \<Rightarrow> fetch_result) \<Rightarrow> nat \<Rightarrow> nat \<Rightarrow> nat \<Rightarrow> nat list \<Rightarrow> backoff_result" where
  "backoff_loop net retries i delay waits =
     (if i < retries then
        (case net i of
           Resolved apiResponse \<Rightarrow>
             if ok apiResponse then (Inr apiResponse, waits, Suc i)
             else if status apiResponse = 503 \<or> status apiResponse = 429
               then backoff_loop net retries (Suc i) (delay * 2) (waits @ [delay])
               else (Inr apiResponse, waits, Suc i)
         | Rejected error \<Rightarrow>
             if int i < int retries - 1
               then backoff_loop net retries (Suc i) (delay * 2) (waits @ [delay])
               else (Inl error, waits, Suc i))
      else (Inl (Error ''API call failed after all retries.''), waits, i))"
  by pat_completeness auto
termination
  by (relation "measure (\<lambda>(net, retries, i, delay, waits). retries - i)") auto

definition fetchWithBackoff :: "(nat \<Rightarrow> fetch_result) \<Rightarrow> nat \<Rightarrow> nat \<Rightarrow> backoff_result" where
  "fetchWithBackoff net retries delay = backoff_loop net retries 0 delay []"

text \<open>
  The outcomes after which the loop goes on to another iteration when one is left: a
  response with status 503 or 429, or any thrown error.
\<close>

fun retried :: "fetch_result \<Rightarrow> bool" where
  "retried (Resolved r) = (\<not> ok r \<and> (status r = 503 \<or> status r = 429))"
| "retried (Rejected e) = True"

text \<open>Example responses and networks.\<close>

definition resp :: "nat \<Rightarrow> string \<Rightarrow> response" where
  "resp st b = \<lparr>status = st, statusText = [], headers = [], body = b\<rparr>"

definition net_of :: "fetch_result list \<Rightarrow> nat \<Rightarrow> fetch_result" where
  "net_of outcomes i =
     (if i < length outcomes then outcomes ! i else Rejected (TypeError ''unreachable''))"

declare backoff_loop.simps [simp del]

lemma backoff_loop_retried:
  assumes "i + k < retries" and "\<forall>j<k. retried (net (i + j))"
  shows "backoff_loop net retries i delay waits =
         backoff_loop net retries (i + k) (delay * 2 ^ k)
           (waits @ map (\<lambda>n. delay * 2 ^ n) [0..<k])"
  using assms
proof (induction k arbitrary: i delay waits)
  case 0
  then show ?case by simp
next
  case (Suc k)
  have r0: "retried (net i)" using Suc.prems(2) by (metis add.right_neutral zero_less_Suc)
  have lt: "i < retries" "int i < int retries - 1" using Suc.prems(1) by auto
  have step: "backoff_loop net retries i delay waits =
              backoff_loop net retries (Suc i) (delay * 2) (waits @ [delay])"
    using r0 lt by (subst backoff_loop.simps) (auto split: fetch_result.splits)
  have "\<forall>j<k. retried (net (Suc i + j))"
    using Suc.prems(2) by (metis Suc_less_eq add_Suc_shift)
  moreover have "Suc i + k < retries" using Suc.prems(1) by simp
  ultimately have ih: "backoff_loop net retries (Suc i) (delay * 2) (waits @ [delay]) =
      backoff_loop net retries (Suc i + k) (delay * 2 * 2 ^ k)
        ((waits @ [delay]) @ map (\<lambda>n. delay * 2 * 2 ^ n) [0..<k])"
    using Suc.IH by blast
  have "map (\<lambda>n. delay * 2 ^ n) [0..<Suc k] = delay # map (\<lambda>n. delay * 2 * 2 ^ n) [0..<k]"
    by (simp add: upt_rec [of 0] map_Suc_upt [symmetric] del: upt_Suc)
  then show ?case using step ih by (simp add: mult.assoc del: upt_Suc)
qed

lemma backoff_loop_settles:
  assumes "i < retries" and "net i = Resolved r" and "\<not> retried (Resolved r)"
  shows "backoff_loop net retries i delay waits = (Inr r, waits, Suc i)"
  using assms by (subst backoff_loop.simps) auto

lemma backoff_loop_last:
  assumes "Suc i = retries" and "retried (net i)"
  shows "fst (backoff_loop net retries i delay waits) =
           (case net i of Rejected e \<Rightarrow> Inl e
            | Resolved r \<Rightarrow> Inl (Error ''API call failed after all retries.''))
         \<and> snd (snd (backoff_loop net retries i delay waits)) = retries"
proof (cases "net i")
  case (Resolved r)
  have "backoff_loop net retries i delay waits =
        backoff_loop net retries (Suc i) (delay * 2) (waits @ [delay])"
    using assms Resolved by (subst backoff_loop.simps) auto
  also have "\<dots> = (Inl (Error ''API call failed after all retries.''), waits @ [delay], Suc i)"
    using assms(1) by (subst backoff_loop.simps) simp
  finally show ?thesis using Resolved assms(1) by simp
next
  case (Rejected e)
  have "backoff_loop net retries i delay waits = (Inl e, waits, Suc i)"
    using assms(1) Rejected by (subst backoff_loop.simps) auto
  then show ?thesis using Rejected assms(1) by simp
qed

lemma backoff_loop_attempts:
  "i \<le> retries \<Longrightarrow> snd (snd (backoff_loop net retries i delay waits)) \<le> retries"
proof (induction net retries i delay waits rule: backoff_loop.induct)
  case (1 net retries i delay waits)
  show ?case
  proof (cases "i < retries")
    case False
    then show ?thesis using "1.prems" by (subst backoff_loop.simps) simp
  next
    case True
    then have le: "Suc i \<le> retries" by simp
    show ?thesis
    proof (cases "net i")
      case (Resolved r)
      show ?thesis
      proof (cases "ok r \<or> \<not> (status r = 503 \<or> status r = 429)")
        case True
        then show ?thesis using \<open>i < retries\<close> Resolved
          by (subst backoff_loop.simps) auto
      next
        case False
        then have "backoff_loop net retries i delay waits =
                   backoff_loop net retries (Suc i) (delay * 2) (waits @ [delay])"
          using \<open>i < retries\<close> Resolved by (subst backoff_loop.simps) auto
        moreover have "snd (snd (backoff_loop net retries (Suc i) (delay * 2) (waits @ [delay])))
                       \<le> retries"
          using "1.IH"(1) [OF \<open>i < retries\<close> Resolved] False le by blast
        ultimately show ?thesis by simp
      qed
    next
      case (Rejected e)
      show ?thesis
      proof (cases "int i < int retries - 1")
        case False
        then show ?thesis using \<open>i < retries\<close> Rejected
          by (subst backoff_loop.simps) auto
      next
        case True
        then have "backoff_loop net retries i delay waits =
                   backoff_loop net retries (Suc i) (delay * 2) (waits @ [delay])"
          using \<open>i < retries\<close> Rejected by (subst backoff_loop.simps) auto
        moreover have "snd (snd (backoff_loop net retries (Suc i) (delay * 2) (waits @ [delay])))
                       \<le> retries"
          using "1.IH"(2) [OF \<open>i < retries\<close> Rejected True] le by blast
        ultimately show ?thesis by simp
      qed
    qed
  qed
qed

section \<open>The claims about the backoff retry helper\<close>

text \<open>
  Claim C1, as the spec states it: with \<open>retries = 3\<close> and \<open>delay = 1000\<close>, three
  responses with status 429 followed by a success give three retries and the response
  of a fourth attempt. The loop runs \<open>retries\<close> times in all, so the helper issues three
  fetches, sleeps 1000, 2000 and 4000, and throws the generic error; the fourth outcome
  is never asked for.
\<close>

theorem fetchWithBackoff_no_fourth_attempt:
  "fetchWithBackoff
     (net_of [Resolved (resp 429 []), Resolved (resp 429 []), Resolved (resp 429 []),
              Resolved (resp 200 ''ok'')]) 3 1000
   = (Inl (Error ''API call failed after all retries.''), [1000, 2000, 4000], 3)
   \<and> fst (fetchWithBackoff
     (net_of [Resolved (resp 429 []), Resolved (resp 429 []), Resolved (resp 429 []),
              Resolved (resp 200 ''ok'')]) 3 1000) \<noteq> Inr (resp 200 ''ok'')"
  by code_simp

text \<open>
  Claim C1, amended: \<open>retries\<close> bounds the number of attempts, whatever the network
  does. When the first \<open>k < retries\<close> attempts end with status 429 or 503 (or a thrown
  error) and the next one succeeds, the helper has slept \<open>delay * 2 ^ (n - 1)\<close> before
  retry \<open>n\<close>, for \<open>n = 1, ..., k\<close>, has issued \<open>k + 1\<close> fetches, and returns the
  response of the last one.
\<close>

theorem fetchWithBackoff_schedule:
  assumes "k < retries" and "\<forall>j<k. retried (net j)" and "net k = Resolved r" and "ok r"
  shows "fetchWithBackoff net retries delay =
           (Inr r, map (\<lambda>n. delay * 2 ^ n) [0..<k], Suc k)
         \<and> (\<forall>other. snd (snd (fetchWithBackoff other retries delay)) \<le> retries)"
proof -
  have "backoff_loop net retries 0 delay [] =
        backoff_loop net retries (0 + k) (delay * 2 ^ k) ([] @ map (\<lambda>n. delay * 2 ^ n) [0..<k])"
    using assms(1,2) by (intro backoff_loop_retried) simp_all
  moreover have "backoff_loop net retries k (delay * 2 ^ k) (map (\<lambda>n. delay * 2 ^ n) [0..<k]) =
        (Inr r, map (\<lambda>n. delay * 2 ^ n) [0..<k], Suc k)"
    using assms(1,3,4) by (intro backoff_loop_settles) simp_all
  ultimately have "fetchWithBackoff net retries delay =
           (Inr r, map (\<lambda>n. delay * 2 ^ n) [0..<k], Suc k)"
    by (simp add: fetchWithBackoff_def)
  moreover have "\<forall>other. snd (snd (fetchWithBackoff other retries delay)) \<le> retries"
    by (simp add: fetchWithBackoff_def backoff_loop_attempts)
  ultimately show ?thesis by simp
qed

theorem fetchWithBackoff_schedule_witness:
  "fetchWithBackoff
     (net_of [Resolved (resp 429 []), Resolved (resp 429 []), Resolved (resp 200 ''ok'')]) 3 1000
   = (Inr (resp 200 ''ok''), [1000, 2000], 3)"
  using fetchWithBackoff_schedule [of 2 3
      "net_of [Resolved (resp 429 []), Resolved (resp 429 []), Resolved (resp 200 ''ok'')]"
      "resp 200 ''ok''" 1000]
  by (simp add: net_of_def resp_def ok_def less_Suc_eq numeral_2_eq_2 upt_rec [of 0] upt_rec [of 1])

text \<open>
  Claim C6, as the spec states it: only a 429, a 503 or a timeout is retried, and the last
  failure is what the caller gets once the retries are used up. A thrown error that is no
  timeout is retried as well, and after a last 503 response the caller gets the generic
  error, not that response.
\<close>

theorem fetchWithBackoff_retry_policy_counterexample:
  "fetchWithBackoff
     (net_of [Rejected (TypeError ''fetch failed''), Resolved (resp 200 ''ok'')]) 3 1000
   = (Inr (resp 200 ''ok''), [1000], 2)
   \<and> fst (fetchWithBackoff
       (net_of [Resolved (resp 429 []), Resolved (resp 429 []), Resolved (resp 503 ''busy'')]) 3 1000)
     = Inl (Error ''API call failed after all retries.'')"
  by code_simp

text \<open>
  Claim C6, amended: an attempt is followed by another one exactly when one is left and
  the attempt ended with status 429 or 503 or with a thrown error of any kind; the first
  response with another status (a success or any other failure) is returned at once. When
  every one of the \<open>retries\<close> attempts was of the retried kind, the helper throws: the
  error of the last attempt if that attempt threw, the generic error
  \<open>API call failed after all retries.\<close> if it ended with a 429 or 503 response.
\<close>

theorem fetchWithBackoff_retry_policy:
  "(k < retries \<and> (\<forall>j<k. retried (net j)) \<and> net k = Resolved r \<and> \<not> retried (Resolved r)
      \<longrightarrow> fetchWithBackoff net retries delay =
            (Inr r, map (\<lambda>n. delay * 2 ^ n) [0..<k], Suc k))
   \<and> (0 < retries \<and> (\<forall>j<retries. retried (net j))
      \<longrightarrow> fst (fetchWithBackoff net retries delay) =
            (case net (retries - 1) of
               Rejected e \<Rightarrow> Inl e
             | Resolved r429 \<Rightarrow> Inl (Error ''API call failed after all retries.''))
          \<and> snd (snd (fetchWithBackoff net retries delay)) = retries)"
proof -
  have first: "fetchWithBackoff net retries delay =
           (Inr r, map (\<lambda>n. delay * 2 ^ n) [0..<k], Suc k)"
    if a: "k < retries \<and> (\<forall>j<k. retried (net j)) \<and> net k = Resolved r \<and> \<not> retried (Resolved r)"
  proof -
    have "backoff_loop net retries 0 delay [] =
          backoff_loop net retries (0 + k) (delay * 2 ^ k) ([] @ map (\<lambda>n. delay * 2 ^ n) [0..<k])"
      using a by (intro backoff_loop_retried) simp_all
    moreover have "backoff_loop net retries k (delay * 2 ^ k) (map (\<lambda>n. delay * 2 ^ n) [0..<k]) =
          (Inr r, map (\<lambda>n. delay * 2 ^ n) [0..<k], Suc k)"
      using a by (intro backoff_loop_settles) simp_all
    ultimately show ?thesis by (simp add: fetchWithBackoff_def)
  qed
  have second: "fst (fetchWithBackoff net retries delay) =
            (case net (retries - 1) of
               Rejected e \<Rightarrow> Inl e
             | Resolved r429 \<Rightarrow> Inl (Error ''API call failed after all retries.''))
          \<and> snd (snd (fetchWithBackoff net retries delay)) = retries"
    if b: "0 < retries \<and> (\<forall>j<retries. retried (net j))"
  proof -
    define m where "m = retries - 1"
    have m: "Suc m = retries" "0 + m < retries" using b by (simp_all add: m_def)
    have "backoff_loop net retries 0 delay [] =
          backoff_loop net retries (0 + m) (delay * 2 ^ m) ([] @ map (\<lambda>n. delay * 2 ^ n) [0..<m])"
      using b m by (intro backoff_loop_retried) simp_all
    then have eq: "fetchWithBackoff net retries delay =
          backoff_loop net retries m (delay * 2 ^ m) (map (\<lambda>n. delay * 2 ^ n) [0..<m])"
      by (simp add: fetchWithBackoff_def)
    have rm: "retried (net m)" using b m by simp
    from backoff_loop_last [of m retries net "delay * 2 ^ m" "map (\<lambda>n. delay * 2 ^ n) [0..<m]",
        OF m(1) rm] eq
    show ?thesis by (simp add: m_def)
  qed
  from first second show ?thesis by blast
qed

theorem fetchWithBackoff_retry_policy_witness:
  "fetchWithBackoff (net_of [Resolved (resp 503 []), Resolved (resp 404 ''gone'')]) 3 1000
     = (Inr (resp 404 ''gone''), [1000], 2)
   \<and> fst (fetchWithBackoff (net_of [Resolved (resp 429 []), Rejected AbortError, Rejected AbortError]) 3 1000)
     = Inl AbortError"
  using fetchWithBackoff_retry_policy [of 1 3
      "net_of [Resolved (resp 503 []), Resolved (resp 404 ''gone'')]" "resp 404 ''gone''" 1000]
    fetchWithBackoff_retry_policy [of 0 3
      "net_of [Resolved (resp 429 []), Rejected AbortError, Rejected AbortError]" "resp 0 []" 1000]
  by (simp add: net_of_def resp_def ok_def less_Suc_eq numeral_3_eq_3 upt_rec [of 0])

section \<open>Facts about the cache storage\<close>

lemma map_of_storage_put:
  "map_of (storage_put name request r cs) n =
     (if n = name then map_option (cache_put request r) (map_of cs n) else map_of cs n)"
  by (induction cs) (auto simp: storage_put_def)

lemma caches_keys_storage_put: "caches_keys (storage_put name request r cs) = caches_keys cs"
  by (induction cs) (auto simp: storage_put_def caches_keys_def)

lemma map_of_caches_open:
  "map_of (caches_open name cs) n =
     (if n = name \<and> name \<notin> set (caches_keys cs) then Some [] else map_of cs n)"
proof (cases "name \<in> set (caches_keys cs)")
  case True
  then show ?thesis by (simp add: caches_open_def)
next
  case False
  then have none: "map_of cs name = None"
    by (simp add: caches_keys_def map_of_eq_None_iff)
  show ?thesis
  proof (cases "n = name")
    case True
    then show ?thesis using False none by (simp add: caches_open_def map_add_def)
  next
    case neq: False
    then show ?thesis using False
      by (simp add: caches_open_def map_add_def split: option.splits)
  qed
qed

lemma cache_of_caches_open: "cache_of n (caches_open name cs) = cache_of n cs"
proof (cases "n = name \<and> name \<notin> set (caches_keys cs)")
  case True
  then have "map_of cs n = None" by (simp add: caches_keys_def map_of_eq_None_iff)
  then show ?thesis using True by (simp add: cache_of_def map_of_caches_open)
next
  case False
  then show ?thesis by (auto simp: cache_of_def map_of_caches_open)
qed

lemma lookup_caches_open: "lookup n u (caches_open name cs) = lookup n u cs"
  by (simp add: lookup_def cache_of_caches_open)

lemma opened: "name \<in> set (caches_keys (caches_open name cs))"
  by (simp add: caches_open_def caches_keys_def)

lemma lookup_storage_put:
  assumes "name \<in> set (caches_keys cs)"
  shows "lookup n u (storage_put name request r cs) =
     (if n = name \<and> u = url request \<and> req_method request = ''GET'' then Some r
      else lookup n u cs)"
proof -
  have "map_of cs name \<noteq> None"
    using assms by (simp add: caches_keys_def map_of_eq_None_iff)
  then obtain c where c: "map_of cs name = Some c" by blast
  show ?thesis
    using c
    by (auto simp: lookup_def cache_of_def map_of_storage_put cache_put_def update_conv'
          split: option.splits)
qed

lemma storage_put_not_GET:
  "req_method request \<noteq> ''GET'' \<Longrightarrow> storage_put name request r cs = cs"
  by (induction cs) (auto simp: storage_put_def cache_put_def)


lemma cache_match_new_Request:
  "cache_match (new_Request u) (cache_of name cs) = lookup name u cs"
  by (simp add: cache_match_def lookup_def new_Request_def)

lemma one_per_key_caches_open: "one_per_key (caches_open name cs) = one_per_key cs"
  by (simp add: one_per_key_def caches_open_def)

lemma one_per_key_storage_put:
  "one_per_key cs \<Longrightarrow> one_per_key (storage_put name request r cs)"
  by (auto simp: one_per_key_def list_all_iff storage_put_def cache_put_def distinct_update
        split: if_splits)

text \<open>
  What the two strategies leave in the storage: the one entry they may write is that of
  the request, in the store they opened, and they write it exactly when the fetch
  resolved with status 200 and the host accepts the put.
\<close>

lemma lookup_cacheFirstStrategy:
  "lookup n u (snd (cacheFirstStrategy request cacheName cs (Resolved r))) =
     (if n = cacheName \<and> u = url request \<and> status r = 200 \<and> req_method request = ''GET''
      then Some r else lookup n u cs)"
  by (simp add: Let_def cacheFirstStrategy_def lookup_storage_put opened lookup_caches_open
        split: option.splits)

lemma lookup_networkFirstStrategy:
  "lookup n u (snd (networkFirstStrategy origin request cs (Resolved r))) =
     (if n = RUNTIME_CACHE \<and> u = url request \<and> status r = 200 \<and> req_method request = ''GET''
      then Some r else lookup n u cs)"
  by (simp add: Let_def networkFirstStrategy_def lookup_storage_put opened lookup_caches_open)

lemma storage_cacheFirstStrategy_Rejected:
  "snd (cacheFirstStrategy request cacheName cs (Rejected e)) = caches_open cacheName cs"
  by (simp add: Let_def cacheFirstStrategy_def split: option.splits)

lemma storage_networkFirstStrategy_Rejected:
  "snd (networkFirstStrategy origin request cs (Rejected e)) = caches_open RUNTIME_CACHE cs"
  by (simp add: Let_def networkFirstStrategy_def split: option.splits)

lemma storage_cacheFirstStrategy_unwritten:
  "status r \<noteq> 200 \<or> req_method request \<noteq> ''GET'' \<Longrightarrow>
   snd (cacheFirstStrategy request cacheName cs (Resolved r)) = caches_open cacheName cs"
  by (auto simp: Let_def cacheFirstStrategy_def storage_put_not_GET split: option.splits)

lemma storage_networkFirstStrategy_unwritten:
  "status r \<noteq> 200 \<or> req_method request \<noteq> ''GET'' \<Longrightarrow>
   snd (networkFirstStrategy origin request cs (Resolved r)) = caches_open RUNTIME_CACHE cs"
  by (auto simp: Let_def networkFirstStrategy_def storage_put_not_GET)

lemma fst_cacheFirstStrategy:
  "fst (cacheFirstStrategy request cacheName cs net) =
     (case cache_match request (cache_of cacheName cs) of
        Some cachedResponse \<Rightarrow> cachedResponse
      | None \<Rightarrow>
          (case net of
             Resolved r \<Rightarrow> r
           | Rejected e \<Rightarrow> offline_response ''Offline - Content not available''))"
  by (simp add: Let_def cacheFirstStrategy_def cache_of_caches_open
        split: option.splits fetch_result.splits)

text \<open>
  The test of the listener for a static asset, \<open>request.url.includes(asset)\<close> for some
  listed asset, holds for every URL with a slash in it, since \<open>'/'\<close> is listed.
\<close>

lemma includes_slash: "CHR ''/'' \<in> set u \<Longrightarrow> list_ex (includes_str u) STATIC_ASSETS"
proof -
  assume "CHR ''/'' \<in> set u"
  then obtain ys zs where "u = ys @ ''/'' @ zs"
    by (auto simp: in_set_conv_decomp)
  then have "includes_str u ''/''"
    by (auto simp: includes_str_def sublist_def)
  then show ?thesis by (simp add: STATIC_ASSETS_def)
qed

text \<open>The activation loop keeps exactly the entries of the storage with a current name.\<close>

lemma foldl_caches_delete:
  "foldl (\<lambda>cs' cacheName. if P cacheName then caches_delete cacheName cs' else cs') cs names =
   filter (\<lambda>(n, c). \<not> (n \<in> set names \<and> P n)) cs"
proof (induction names arbitrary: cs)
  case Nil
  then show ?case by simp
next
  case (Cons a names)
  show ?case
    by (simp add: Cons.IH caches_delete_def) (auto intro!: filter_cong)
qed

lemma activate_listener_filter:
  "fst (activate_listener cs) = filter (\<lambda>(n, c). n \<in> set currentCaches) cs"
  unfolding activate_listener_def fst_conv foldl_caches_delete
  by (rule filter_cong) (auto simp: caches_keys_def rev_image_eqI)

lemma map_of_filter_key:
  "map_of (filter (\<lambda>(n, c). P n) cs) name = (if P name then map_of cs name else None)"
  by (induction cs) auto

section \<open>The claims about the service worker\<close>

text \<open>
  Claim C2, at the input where the code leaves it: the install step has stored the
  offline document \<open>/offline.html\<close> in the primary store \<open>portfolio-v3.0.0\<close>; a
  document request for \<open>/api/resume\<close>, which the listener hands to the network-first
  strategy, finds the network down and no cached copy. The strategy looks for
  \<open>/offline.html\<close> in the runtime store only, so the page receives the synthesized 503
  response although the offline document is available.
\<close>

theorem networkFirstStrategy_misses_installed_offline_page:
  "lookup ''portfolio-v3.0.0'' ''https://example.com/offline.html''
     (storage (install_listener ''https://example.com'' (\<lambda>u. Resolved (resp 200 u)) []))
     = Some (resp 200 ''https://example.com/offline.html'')
   \<and> map_option fst (fetch_listener origin_of ''https://example.com''
        \<lparr>url = ''https://example.com/api/resume'', req_method = ''GET'', destination = ''document''\<rparr>
        (storage (install_listener ''https://example.com'' (\<lambda>u. Resolved (resp 200 u)) []))
        (Rejected (TypeError ''Failed to fetch'')))
     = Some (offline_response ''Offline - No cached version available'')"
  by code_simp

text \<open>
  Claim C3, at the input where the code leaves it: a same-origin document request for
  \<open>/privacy\<close>, which is no API call, no image and no entry of the static-asset list.
  Its URL includes the listed asset \<open>'/'\<close>, so the listener answers it cache-first from
  the primary store (third line: what the network-first strategy would have done).
\<close>

theorem fetch_listener_unlisted_page_goes_cache_first:
  "\<not> list_ex (\<lambda>asset. resolve ''https://example.com'' asset = ''https://example.com/privacy'')
        STATIC_ASSETS
   \<and> fetch_listener origin_of ''https://example.com''
        \<lparr>url = ''https://example.com/privacy'', req_method = ''GET'', destination = ''document''\<rparr>
        [] (Resolved (resp 200 ''privacy''))
     = Some (resp 200 ''privacy'',
             [(''portfolio-v3.0.0'', [(''https://example.com/privacy'', resp 200 ''privacy'')])])
   \<and> networkFirstStrategy ''https://example.com''
        \<lparr>url = ''https://example.com/privacy'', req_method = ''GET'', destination = ''document''\<rparr>
        [] (Resolved (resp 200 ''privacy''))
     = (resp 200 ''privacy'',
        [(''runtime-v3.0.0'', [(''https://example.com/privacy'', resp 200 ''privacy'')])])"
  by code_simp




text \<open>
  Claim C5, at the input where the code leaves it: the fetch of \<open>/offline.html\<close> fails
  during install. \<open>addAll\<close> rejects and stores nothing, \<open>skipWaiting\<close> is not called
  and the error is logged; but the \<open>catch\<close> ends the chain, so the promise given to
  \<open>waitUntil\<close> is fulfilled and the install step completes, with an empty primary store.
\<close>

theorem install_listener_completes_on_failed_asset:
  "install_listener ''https://example.com''
      (\<lambda>u. if u = ''https://example.com/offline.html''
           then Rejected (TypeError ''Failed to fetch'') else Resolved (resp 200 u)) []
   = \<lparr>waitUntil = Inr (), skipWaiting = False, logged = Some (TypeError ''Failed to fetch''),
      storage = [(''portfolio-v3.0.0'', [])]\<rparr>
   \<and> install_completes (install_listener ''https://example.com''
      (\<lambda>u. if u = ''https://example.com/offline.html''
           then Rejected (TypeError ''Failed to fetch'') else Resolved (resp 200 u)) [])"
  by code_simp

text \<open>
  Claim C7: after the activate listener has run, no store with a name outside
  \<open>currentCaches\<close> is left; every store with a current name that existed before still
  exists, is the same store with all its entries (stores are deleted whole, entries never),
  and answers every query as before; and the clients have been claimed.
\<close>

theorem activate_listener_evicts_stale_stores:
  "(\<forall>name. name \<notin> set currentCaches \<longrightarrow> name \<notin> set (caches_keys (fst (activate_listener cs))))
   \<and> (\<forall>name \<in> set currentCaches.
         (name \<in> set (caches_keys cs) \<longrightarrow> name \<in> set (caches_keys (fst (activate_listener cs))))
       \<and> map_of (fst (activate_listener cs)) name = map_of cs name
       \<and> (\<forall>u. lookup name u (fst (activate_listener cs)) = lookup name u cs))
   \<and> snd (activate_listener cs)"
proof -
  have keys: "set (caches_keys (fst (activate_listener cs))) = set (caches_keys cs) \<inter> set currentCaches"
    by (auto simp: activate_listener_filter caches_keys_def rev_image_eqI)
  have same: "map_of (fst (activate_listener cs)) name = map_of cs name"
    if "name \<in> set currentCaches" for name
    using that by (simp add: activate_listener_filter map_of_filter_key)
  have "snd (activate_listener cs)" by (simp add: activate_listener_def)
  then show ?thesis using keys same by (auto simp: lookup_def cache_of_def)
qed

theorem activate_listener_evicts_stale_stores_witness:
  "''portfolio-v2.0.0'' \<notin> set (caches_keys (fst (activate_listener
      [(''portfolio-v2.0.0'', [(''a'', resp 200 ''x'')]), (''runtime-v2.0.0'', []),
       (''portfolio-v3.0.0'', [(''b'', resp 200 ''y'')]), (''images-v3.0.0'', [])])))
   \<and> lookup ''portfolio-v3.0.0'' ''b'' (fst (activate_listener
      [(''portfolio-v2.0.0'', [(''a'', resp 200 ''x'')]), (''runtime-v2.0.0'', []),
       (''portfolio-v3.0.0'', [(''b'', resp 200 ''y'')]), (''images-v3.0.0'', [])]))
     = Some (resp 200 ''y'')"
  using activate_listener_evicts_stale_stores [of
      "[(''portfolio-v2.0.0'', [(''a'', resp 200 ''x'')]), (''runtime-v2.0.0'', []),
       (''portfolio-v3.0.0'', [(''b'', resp 200 ''y'')]), (''images-v3.0.0'', [])]"]
  by (simp add: currentCaches_def CACHE_VERSION_def RUNTIME_CACHE_def IMAGE_CACHE_def
        lookup_def cache_of_def)

text \<open>
  Claim C8: only GET requests are ever written into a store. For a request with another
  method (a POST to an API path, say) neither strategy writes anything, and whatever the
  listener answers, every entry of every store is as before; the worker itself never
  reads the method, it is the host that refuses the put. Every store holds at most one
  response per key: both strategies and the listener keep that invariant, and of two
  writes of one key the newer is the entry afterwards.
\<close>

theorem only_GET_requests_are_written:
  "(req_method request \<noteq> ''GET'' \<longrightarrow>
      snd (cacheFirstStrategy request cacheName cs net) = caches_open cacheName cs
    \<and> snd (networkFirstStrategy origin request cs net) = caches_open RUNTIME_CACHE cs
    \<and> (\<forall>res cs'. fetch_listener url_origin location_origin request cs net = Some (res, cs')
          \<longrightarrow> (\<forall>n u. lookup n u cs' = lookup n u cs)))
   \<and> (one_per_key cs \<longrightarrow>
        one_per_key (snd (cacheFirstStrategy request cacheName cs net))
      \<and> one_per_key (snd (networkFirstStrategy origin request cs net))
      \<and> (\<forall>res cs'. fetch_listener url_origin location_origin request cs net = Some (res, cs')
            \<longrightarrow> one_per_key cs'))
   \<and> (req_method request = ''GET'' \<and> status newer = 200 \<longrightarrow>
        lookup RUNTIME_CACHE (url request)
          (snd (networkFirstStrategy origin request
                 (snd (networkFirstStrategy origin request cs (Resolved older)))
                 (Resolved newer))) = Some newer
      \<and> lookup cacheName (url request)
          (snd (cacheFirstStrategy request cacheName
                 (snd (cacheFirstStrategy request cacheName cs (Resolved older)))
                 (Resolved newer))) = Some newer)"
proof -
  have cf: "snd (cacheFirstStrategy request name cs net) = caches_open name cs"
    if "req_method request \<noteq> ''GET''" for name
    using that
    by (cases net)
       (simp_all add: storage_cacheFirstStrategy_unwritten storage_cacheFirstStrategy_Rejected)
  have nf: "snd (networkFirstStrategy org request cs net) = caches_open RUNTIME_CACHE cs"
    if "req_method request \<noteq> ''GET''" for org
    using that
    by (cases net)
       (simp_all add: storage_networkFirstStrategy_unwritten storage_networkFirstStrategy_Rejected)
  have routed: "cs' = snd (networkFirstStrategy location_origin request cs net)
      \<or> (\<exists>name. cs' = snd (cacheFirstStrategy request name cs net))"
    if "fetch_listener url_origin location_origin request cs net = Some (res, cs')"
    for res cs'
  proof -
    from that have "networkFirstStrategy location_origin request cs net = (res, cs')
      \<or> (\<exists>name. cacheFirstStrategy request name cs net = (res, cs'))"
      by (auto simp: fetch_listener_def split: if_splits)
    then show ?thesis by (metis snd_conv)
  qed
  have fl: "lookup n u cs' = lookup n u cs"
    if ng: "req_method request \<noteq> ''GET''"
      and eq: "fetch_listener url_origin location_origin request cs net = Some (res, cs')"
    for res cs' n u
  proof -
    from routed [OF eq] cf [OF ng] nf [OF ng]
    have "\<exists>name. cs' = caches_open name cs" by metis
    then show ?thesis by (auto simp: lookup_caches_open)
  qed
  have ocf: "one_per_key (snd (cacheFirstStrategy request name cs net))"
    if "one_per_key cs" for name
    using that
    by (cases net)
       (simp_all add: Let_def cacheFirstStrategy_def one_per_key_caches_open
          one_per_key_storage_put split: option.splits)
  have onf: "one_per_key (snd (networkFirstStrategy org request cs net))"
    if "one_per_key cs" for org
    using that
    by (cases net)
       (simp_all add: Let_def networkFirstStrategy_def one_per_key_caches_open
          one_per_key_storage_put split: option.splits)
  have ofl: "one_per_key cs'"
    if inv: "one_per_key cs"
      and eq: "fetch_listener url_origin location_origin request cs net = Some (res, cs')"
    for res cs'
    using routed [OF eq] ocf [OF inv] onf [OF inv] by metis
  have newer: "lookup RUNTIME_CACHE (url request)
          (snd (networkFirstStrategy origin request
                 (snd (networkFirstStrategy origin request cs (Resolved older)))
                 (Resolved newer))) = Some newer
      \<and> lookup cacheName (url request)
          (snd (cacheFirstStrategy request cacheName
                 (snd (cacheFirstStrategy request cacheName cs (Resolved older)))
                 (Resolved newer))) = Some newer"
    if "req_method request = ''GET'' \<and> status newer = 200"
    using that by (simp add: lookup_networkFirstStrategy lookup_cacheFirstStrategy)
  from cf nf fl ocf onf ofl newer show ?thesis by blast
qed

theorem only_GET_requests_are_written_witness:
  "fetch_listener origin_of ''https://example.com''
      \<lparr>url = ''https://example.com/api/send'', req_method = ''POST'', destination = []\<rparr>
      [] (Resolved (resp 200 ''sent''))
     = Some (resp 200 ''sent'', [(''runtime-v3.0.0'', [])])
   \<and> lookup ''runtime-v3.0.0'' ''https://example.com/api/items''
       (snd (networkFirstStrategy ''https://example.com''
          \<lparr>url = ''https://example.com/api/items'', req_method = ''GET'', destination = []\<rparr>
          (snd (networkFirstStrategy ''https://example.com''
             \<lparr>url = ''https://example.com/api/items'', req_method = ''GET'', destination = []\<rparr>
             [] (Resolved (resp 200 ''first''))))
          (Resolved (resp 200 ''second''))))
     = Some (resp 200 ''second'')"
proof -
  have "snd (networkFirstStrategy ''https://example.com''
      \<lparr>url = ''https://example.com/api/send'', req_method = ''POST'', destination = []\<rparr>
      [] (Resolved (resp 200 ''sent''))) = caches_open RUNTIME_CACHE []"
    using only_GET_requests_are_written [where
      request = "\<lparr>url = ''https://example.com/api/send'', req_method = ''POST'', destination = []\<rparr>"
      and origin = "''https://example.com''" and cs = "[]"
      and net = "Resolved (resp 200 ''sent'')"]
    by simp
  moreover have "fst (networkFirstStrategy ''https://example.com''
      \<lparr>url = ''https://example.com/api/send'', req_method = ''POST'', destination = []\<rparr>
      [] (Resolved (resp 200 ''sent''))) = resp 200 ''sent''"
    by (simp add: Let_def networkFirstStrategy_def)
  ultimately have "networkFirstStrategy ''https://example.com''
      \<lparr>url = ''https://example.com/api/send'', req_method = ''POST'', destination = []\<rparr>
      [] (Resolved (resp 200 ''sent'')) = (resp 200 ''sent'', [(''runtime-v3.0.0'', [])])"
    by (simp add: prod_eq_iff caches_open_def caches_keys_def RUNTIME_CACHE_def)
  moreover have "fetch_listener origin_of ''https://example.com''
      \<lparr>url = ''https://example.com/api/send'', req_method = ''POST'', destination = []\<rparr>
      [] (Resolved (resp 200 ''sent''))
    = Some (networkFirstStrategy ''https://example.com''
      \<lparr>url = ''https://example.com/api/send'', req_method = ''POST'', destination = []\<rparr>
      [] (Resolved (resp 200 ''sent'')))"
    by code_simp
  ultimately show ?thesis
    using only_GET_requests_are_written [where
      request = "\<lparr>url = ''https://example.com/api/items'', req_method = ''GET'', destination = []\<rparr>"
      and origin = "''https://example.com''" and cs = "[]"
      and older = "resp 200 ''first''" and newer = "resp 200 ''second''"]
    by (simp add: resp_def RUNTIME_CACHE_def)
qed

text \<open>
  Claim C9, as the spec states it: in both strategies a response with a status other than
  200 is returned to the caller without being cached. When the cache-first strategy finds
  a cached copy, the network response (here a 204) is neither cached nor returned: the
  caller gets the cached copy and the network response is dropped.
\<close>

theorem cacheFirstStrategy_drops_response_on_hit_counterexample:
  "cacheFirstStrategy \<lparr>url = ''https://example.com/logo.png'', req_method = ''GET'', destination = ''image''\<rparr> ''images-v3.0.0''
       [(''images-v3.0.0'', [(''https://example.com/logo.png'', resp 200 ''old'')])]
       (Resolved (resp 204 []))
     = (resp 200 ''old'',
        [(''images-v3.0.0'', [(''https://example.com/logo.png'', resp 200 ''old'')])])
   \<and> fst (cacheFirstStrategy \<lparr>url = ''https://example.com/logo.png'', req_method = ''GET'', destination = ''image''\<rparr> ''images-v3.0.0''
       [(''images-v3.0.0'', [(''https://example.com/logo.png'', resp 200 ''old'')])]
       (Resolved (resp 204 []))) \<noteq> resp 204 []"
  by code_simp

text \<open>
  Claim C9, amended: in both strategies a network response is written into a store only
  when its status is exactly 200 (first and second conjunct: every entry of every store
  after the call; the entry of the request is the response exactly when the status is 200
  and the request a GET). With any other status, 201 and 204 included, the storage is
  left as opening the store left it; the response is returned to the caller by the
  network-first strategy, and by the cache-first strategy when there is no cached copy,
  while on a hit the cached copy is returned and the network response dropped.
\<close>

theorem only_status_200_is_cached:
  "lookup n u (snd (networkFirstStrategy origin request cs (Resolved r))) =
      (if n = RUNTIME_CACHE \<and> u = url request \<and> status r = 200 \<and> req_method request = ''GET''
       then Some r else lookup n u cs)
   \<and> lookup n u (snd (cacheFirstStrategy request cacheName cs (Resolved r))) =
      (if n = cacheName \<and> u = url request \<and> status r = 200 \<and> req_method request = ''GET''
       then Some r else lookup n u cs)
   \<and> (status r \<noteq> 200 \<longrightarrow>
        snd (networkFirstStrategy origin request cs (Resolved r)) = caches_open RUNTIME_CACHE cs
      \<and> snd (cacheFirstStrategy request cacheName cs (Resolved r)) = caches_open cacheName cs)
   \<and> fst (networkFirstStrategy origin request cs (Resolved r)) = r
   \<and> fst (cacheFirstStrategy request cacheName cs (Resolved r)) =
       (case cache_match request (cache_of cacheName cs) of
          Some cachedResponse \<Rightarrow> cachedResponse
        | None \<Rightarrow> r)"
proof -
  have a: "fst (networkFirstStrategy origin request cs (Resolved r)) = r"
    by (simp add: Let_def networkFirstStrategy_def)
  have b: "fst (cacheFirstStrategy request cacheName cs (Resolved r)) =
       (case cache_match request (cache_of cacheName cs) of
          Some cachedResponse \<Rightarrow> cachedResponse
        | None \<Rightarrow> r)"
    by (simp add: fst_cacheFirstStrategy split: option.splits)
  have c: "snd (networkFirstStrategy origin request cs (Resolved r)) = caches_open RUNTIME_CACHE cs
      \<and> snd (cacheFirstStrategy request cacheName cs (Resolved r)) = caches_open cacheName cs"
    if "status r \<noteq> 200"
    using that
    by (simp add: storage_networkFirstStrategy_unwritten storage_cacheFirstStrategy_unwritten)
  from a b c lookup_networkFirstStrategy [of n u origin request cs r]
    lookup_cacheFirstStrategy [of n u request cacheName cs r]
  show ?thesis by blast
qed

theorem only_status_200_is_cached_witness:
  "networkFirstStrategy ''https://example.com''
      \<lparr>url = ''https://example.com/api/items'', req_method = ''GET'', destination = []\<rparr>
      [] (Resolved (resp 201 ''created''))
     = (resp 201 ''created'', [(''runtime-v3.0.0'', [])])
   \<and> lookup ''images-v3.0.0'' ''https://example.com/logo.png''
       (snd (cacheFirstStrategy \<lparr>url = ''https://example.com/logo.png'', req_method = ''GET'', destination = ''image''\<rparr> ''images-v3.0.0'' [] (Resolved (resp 200 ''png''))))
     = Some (resp 200 ''png'')"
  using only_status_200_is_cached [where r = "resp 201 ''created''"
      and origin = "''https://example.com''"
      and request = "\<lparr>url = ''https://example.com/api/items'', req_method = ''GET'', destination = []\<rparr>"
      and cs = "[]"]
    only_status_200_is_cached [where r = "resp 200 ''png''" and request = "\<lparr>url = ''https://example.com/logo.png'', req_method = ''GET'', destination = ''image''\<rparr>"
      and cacheName = "''images-v3.0.0''" and cs = "[]"
      and n = "''images-v3.0.0''" and u = "''https://example.com/logo.png''"]
  by (cases "networkFirstStrategy ''https://example.com''
      \<lparr>url = ''https://example.com/api/items'', req_method = ''GET'', destination = []\<rparr>
      [] (Resolved (resp 201 ''created''))")
     (simp add: resp_def caches_open_def caches_keys_def RUNTIME_CACHE_def)

text \<open>
  Claim C10: the network-first strategy returns whatever response the fetch resolved with,
  a non-success status such as 500 included, without writing to or reading from the
  store; the cached copy, the offline document and the synthesized 503 response are what
  it returns when the fetch throws, and only then.
\<close>

theorem networkFirstStrategy_passes_resolved_response:
  "fst (networkFirstStrategy origin request cs (Resolved r)) = r
   \<and> (\<not> ok r \<longrightarrow>
        networkFirstStrategy origin request cs (Resolved r) = (r, caches_open RUNTIME_CACHE cs))
   \<and> fst (networkFirstStrategy origin request cs (Rejected e)) =
       (case cache_match request (cache_of RUNTIME_CACHE cs) of
          Some cachedResponse \<Rightarrow> cachedResponse
        | None \<Rightarrow>
            if destination request = ''document'' then
              (case lookup RUNTIME_CACHE (resolve origin ''/offline.html'') cs of
                 Some offlinePage \<Rightarrow> offlinePage
               | None \<Rightarrow> offline_response ''Offline - No cached version available'')
            else offline_response ''Offline - No cached version available'')"
proof -
  have "status r \<noteq> 200" if "\<not> ok r"
    using that by (auto simp: ok_def)
  then show ?thesis
    by (simp add: Let_def networkFirstStrategy_def cache_match_new_Request lookup_caches_open
          cache_of_caches_open split: option.splits)
qed

theorem networkFirstStrategy_passes_resolved_response_witness:
  "networkFirstStrategy ''https://example.com''
      \<lparr>url = ''https://example.com/api/items'', req_method = ''GET'', destination = ''document''\<rparr>
      [(''runtime-v3.0.0'', [(''https://example.com/api/items'', resp 200 ''old items'')])]
      (Resolved (resp 500 ''boom''))
     = (resp 500 ''boom'',
        [(''runtime-v3.0.0'', [(''https://example.com/api/items'', resp 200 ''old items'')])])"
  using networkFirstStrategy_passes_resolved_response [of "''https://example.com''"
      "\<lparr>url = ''https://example.com/api/items'', req_method = ''GET'', destination = ''document''\<rparr>"
      "[(''runtime-v3.0.0'', [(''https://example.com/api/items'', resp 200 ''old items'')])]"
      "resp 500 ''boom''" AbortError]
  by (simp add: resp_def ok_def caches_open_def caches_keys_def RUNTIME_CACHE_def)

end
